theory Spec2Isabelle
  imports Main
begin

section \<open>Python values\<close>

text \<open>
  The program (\<^verbatim>\<open>src/Streamlit/pov-edit-win.py\<close>) is dynamically typed: a field of a
  \<^verbatim>\<open>PovrayObject\<close>, the camera and the lights of a \<^verbatim>\<open>PovrayScene\<close> hold whatever the
  caller or the loaded JSON document put there. Values are therefore modelled by one
  datatype. A dictionary is an association list in insertion order whose keys are
  strings (the keys of a JSON object, and of a \<^verbatim>\<open>**kwargs\<close> call).

  A float is kept abstract (type parameter \<open>'f\<close>): its \<^verbatim>\<open>repr\<close> and its truth value
  (\<^verbatim>\<open>x != 0.0\<close>) are taken from the interpreter, and so is the \<^verbatim>\<open>repr\<close> of a string
  (quoting and escapes). The three are the fields of \<open>py_runtime\<close>, a parameter of every
  function that formats or tests a value. Limits of the interpreter (recursion depth,
  the digit limit of \<^verbatim>\<open>str(int)\<close>, memory) are not modelled.
\<close>

datatype 'f pyval =
    PyNone
  | PyBool bool
  | PyInt int
  | PyFloat 'f
  | PyStr string
  | PyTuple "'f pyval list"
  | PyList "'f pyval list"
  | PyDict "(string \<times> 'f pyval) list"

datatype py_error =
    KeyError string
  | IndexError
  | TypeError
  | AttributeError

record 'f py_runtime =
  float_repr :: "'f \<Rightarrow> string"
  float_bool :: "'f \<Rightarrow> bool"
  str_repr :: "string \<Rightarrow> string"

text \<open>Sequencing of computations that may raise: the first exception ends the run.\<close>

definition py_bind :: "py_error + 'a \<Rightarrow> ('a \<Rightarrow> py_error + 'b) \<Rightarrow> py_error + 'b" where
  "py_bind m f = (case m of Inl e \<Rightarrow> Inl e | Inr x \<Rightarrow> f x)"

subsection \<open>Decimal numerals\<close>

text \<open>\<^verbatim>\<open>str(i)\<close> of an integer: its decimal digits, after a minus sign when it is negative.\<close>

fun digits :: "nat \<Rightarrow> string" where
  "digits n = (if n < 10 then [''0123456789'' ! n]
               else digits (n div 10) @ [''0123456789'' ! (n mod 10)])"

declare digits.simps [simp del]

definition int_str :: "int \<Rightarrow> string" where
  "int_str i = (if i < 0 then CHR ''-'' # digits (nat (- i)) else digits (nat i))"

subsection \<open>Subscription and iteration\<close>

text \<open>\<^verbatim>\<open>v[i]\<close> for a literal index \<open>i \<ge> 0\<close>. A dictionary here has string keys only, so an
  integer subscript is a missing key.\<close>

fun py_getitem :: "'f pyval \<Rightarrow> nat \<Rightarrow> py_error + 'f pyval" where
  "py_getitem (PyTuple xs) i = (if i < length xs then Inr (xs ! i) else Inl IndexError)"
| "py_getitem (PyList xs) i = (if i < length xs then Inr (xs ! i) else Inl IndexError)"
| "py_getitem (PyStr s) i = (if i < length s then Inr (PyStr [s ! i]) else Inl IndexError)"
| "py_getitem (PyDict kvs) i = Inl (KeyError (digits i))"
| "py_getitem _ i = Inl TypeError"

text \<open>\<^verbatim>\<open>v[k]\<close> for a string key \<open>k\<close>: a lookup in a dictionary, a \<^verbatim>\<open>TypeError\<close> on
  anything else (a sequence wants an integer index, the rest is not subscriptable).\<close>

fun py_getkey :: "'f pyval \<Rightarrow> string \<Rightarrow> py_error + 'f pyval" where
  "py_getkey (PyDict kvs) k = (case map_of kvs k of None \<Rightarrow> Inl (KeyError k) | Some v \<Rightarrow> Inr v)"
| "py_getkey _ k = Inl TypeError"

text \<open>The items a \<^verbatim>\<open>for\<close> loop or a comprehension visits.\<close>

fun py_iter :: "'f pyval \<Rightarrow> py_error + 'f pyval list" where
  "py_iter (PyTuple xs) = Inr xs"
| "py_iter (PyList xs) = Inr xs"
| "py_iter (PyStr s) = Inr (map (\<lambda>c. PyStr [c]) s)"
| "py_iter (PyDict kvs) = Inr (map (\<lambda>kv. PyStr (fst kv)) kvs)"
| "py_iter _ = Inl TypeError"

subsection \<open>Truth value and formatting\<close>

fun py_truthy :: "'f py_runtime \<Rightarrow> 'f pyval \<Rightarrow> bool" where
  "py_truthy rt PyNone = False"
| "py_truthy rt (PyBool b) = b"
| "py_truthy rt (PyInt i) = (i \<noteq> 0)"
| "py_truthy rt (PyFloat x) = float_bool rt x"
| "py_truthy rt (PyStr s) = (s \<noteq> [])"
| "py_truthy rt (PyTuple xs) = (xs \<noteq> [])"
| "py_truthy rt (PyList xs) = (xs \<noteq> [])"
| "py_truthy rt (PyDict kvs) = (kvs \<noteq> [])"

text \<open>\<^verbatim>\<open>", ".join(parts)\<close>\<close>

fun comma_join :: "string list \<Rightarrow> string" where
  "comma_join [] = []"
| "comma_join [x] = x"
| "comma_join (x # y # ys) = x @ '', '' @ comma_join (y # ys)"

text \<open>\<^verbatim>\<open>repr(v)\<close>; the items of a container are shown by their \<^verbatim>\<open>repr\<close>, a tuple of one
  item with a trailing comma.\<close>

fun py_repr :: "'f py_runtime \<Rightarrow> 'f pyval \<Rightarrow> string"
  and py_repr_list :: "'f py_runtime \<Rightarrow> 'f pyval list \<Rightarrow> string list"
  and py_repr_items :: "'f py_runtime \<Rightarrow> (string \<times> 'f pyval) list \<Rightarrow> string list" where
  "py_repr rt PyNone = ''None''"
| "py_repr rt (PyBool b) = (if b then ''True'' else ''False'')"
| "py_repr rt (PyInt i) = int_str i"
| "py_repr rt (PyFloat x) = float_repr rt x"
| "py_repr rt (PyStr s) = str_repr rt s"
| "py_repr rt (PyTuple xs) =
     (case xs of [x] \<Rightarrow> ''('' @ py_repr rt x @ '',)''
      | _ \<Rightarrow> ''('' @ comma_join (py_repr_list rt xs) @ '')'')"
| "py_repr rt (PyList xs) = ''['' @ comma_join (py_repr_list rt xs) @ '']''"
| "py_repr rt (PyDict kvs) = ''{'' @ comma_join (py_repr_items rt kvs) @ ''}''"
| "py_repr_list rt [] = []"
| "py_repr_list rt (x # xs) = py_repr rt x # py_repr_list rt xs"
| "py_repr_items rt [] = []"
| "py_repr_items rt ((k, v) # kvs) =
     (str_repr rt k @ '': '' @ py_repr rt v) # py_repr_items rt kvs"

text \<open>What an f-string field \<^verbatim>\<open>{v}\<close> inserts: \<^verbatim>\<open>format(v, "")\<close>, which is \<^verbatim>\<open>str(v)\<close>;
  it differs from \<^verbatim>\<open>repr(v)\<close> on a string only.\<close>

fun py_str :: "'f py_runtime \<Rightarrow> 'f pyval \<Rightarrow> string" where
  "py_str rt (PyStr s) = s"
| "py_str rt v = py_repr rt v"

section \<open>The program\<close>

subsection \<open>\<^verbatim>\<open>class PovrayObject\<close>\<close>

record 'f PovrayObject =
  obj_type :: "'f pyval"
  position :: "'f pyval"
  rotation :: "'f pyval"
  scale :: "'f pyval"
  color :: "'f pyval"
  texture :: "'f pyval"

text \<open>The parameter names of \<^verbatim>\<open>__init__\<close> other than \<^verbatim>\<open>self\<close>.\<close>

definition init_params :: "string list" where
  "init_params = [''obj_type'', ''position'', ''rotation'', ''scale'', ''color'', ''texture'']"

text \<open>An argument of \<^verbatim>\<open>__init__\<close> that was not passed takes the default of the signature.\<close>

definition arg_or :: "(string \<times> 'f pyval) list \<Rightarrow> string \<Rightarrow> 'f pyval \<Rightarrow> 'f pyval" where
  "arg_or kwargs k d = (case map_of kwargs k of None \<Rightarrow> d | Some v \<Rightarrow> v)"

text \<open>
  \<^verbatim>\<open>PovrayObject(**kwargs)\<close>, lines 78 to 85: Python binds the keywords to the parameters
  \<^verbatim>\<open>obj_type, position=(0,0,0), rotation=(0,0,0), scale=(1,1,1), color=(1,1,1), texture=None\<close>
  and raises \<^verbatim>\<open>TypeError\<close> for a keyword that is no parameter and for a missing
  \<^verbatim>\<open>obj_type\<close>; the body stores the six arguments as they are.
\<close>

definition PovrayObject_init :: "(string \<times> 'f pyval) list \<Rightarrow> py_error + 'f PovrayObject" where
  "PovrayObject_init kwargs =
     (if \<exists>k \<in> set (map fst kwargs). k \<notin> set init_params then Inl TypeError
      else case map_of kwargs ''obj_type'' of
        None \<Rightarrow> Inl TypeError
      | Some t \<Rightarrow> Inr \<lparr>
          obj_type = t,
          position = arg_or kwargs ''position'' (PyTuple [PyInt 0, PyInt 0, PyInt 0]),
          rotation = arg_or kwargs ''rotation'' (PyTuple [PyInt 0, PyInt 0, PyInt 0]),
          scale = arg_or kwargs ''scale'' (PyTuple [PyInt 1, PyInt 1, PyInt 1]),
          color = arg_or kwargs ''color'' (PyTuple [PyInt 1, PyInt 1, PyInt 1]),
          texture = arg_or kwargs ''texture'' PyNone \<rparr>)"

text \<open>The text of \<^verbatim>\<open>{v[0]}, {v[1]}, {v[2]}\<close> inside an f-string; the subscripts are
  evaluated from left to right.\<close>

definition fmt3 :: "'f py_runtime \<Rightarrow> 'f pyval \<Rightarrow> py_error + string" where
  "fmt3 rt v =
     py_bind (py_getitem v 0) (\<lambda>a.
     py_bind (py_getitem v 1) (\<lambda>b.
     py_bind (py_getitem v 2) (\<lambda>c.
       Inr (py_str rt a @ '', '' @ py_str rt b @ '', '' @ py_str rt c))))"

text \<open>\<^verbatim>\<open>to_pov\<close>, lines 87 to 104.\<close>

definition to_pov :: "'f py_runtime \<Rightarrow> 'f PovrayObject \<Rightarrow> py_error + string" where
  "to_pov rt self =
     py_bind (Inr ''object {\<newline>'') (\<lambda>pov_str.
     py_bind (Inr (pov_str @ ''    '' @ py_str rt (obj_type self) @ ''\<newline>'')) (\<lambda>pov_str.
     py_bind (fmt3 rt (position self)) (\<lambda>p.
     py_bind (Inr (pov_str @ ''    translate <'' @ p @ ''>\<newline>'')) (\<lambda>pov_str.
     py_bind (fmt3 rt (rotation self)) (\<lambda>r.
     py_bind (Inr (pov_str @ ''    rotate <'' @ r @ ''>\<newline>'')) (\<lambda>pov_str.
     py_bind (fmt3 rt (scale self)) (\<lambda>s.
     py_bind (Inr (pov_str @ ''    scale <'' @ s @ ''>\<newline>'')) (\<lambda>pov_str.
     py_bind
       (if py_truthy rt (texture self)
        then Inr (pov_str @ ''    texture { '' @ py_str rt (texture self) @ '' }\<newline>'')
        else py_bind (fmt3 rt (color self)) (\<lambda>c.
               Inr (pov_str @ ''    pigment { color rgb <'' @ c @ ''> }\<newline>'')))
       (\<lambda>pov_str. Inr (pov_str @ ''}\<newline>''))))))))))"

text \<open>\<^verbatim>\<open>PovrayObject.to_dict\<close>, lines 106 to 115.\<close>

definition PovrayObject_to_dict :: "'f PovrayObject \<Rightarrow> 'f pyval" where
  "PovrayObject_to_dict self = PyDict [
     (''obj_type'', obj_type self),
     (''position'', position self),
     (''rotation'', rotation self),
     (''scale'', scale self),
     (''color'', color self),
     (''texture'', texture self)]"

text \<open>\<^verbatim>\<open>PovrayObject.from_dict\<close>, lines 117 to 120: \<^verbatim>\<open>cls(**data)\<close> wants a mapping.\<close>

fun PovrayObject_from_dict :: "'f pyval \<Rightarrow> py_error + 'f PovrayObject" where
  "PovrayObject_from_dict (PyDict kvs) = PovrayObject_init kvs"
| "PovrayObject_from_dict _ = Inl TypeError"

subsection \<open>\<^verbatim>\<open>class PovrayScene\<close>\<close>

text \<open>\<^verbatim>\<open>objects\<close> is the list built by \<^verbatim>\<open>__init__\<close>, \<^verbatim>\<open>add_object\<close> and \<^verbatim>\<open>from_dict\<close>;
  \<^verbatim>\<open>camera\<close> and \<^verbatim>\<open>lights\<close> are whatever was assigned to them.\<close>

record 'f PovrayScene =
  objects :: "'f PovrayObject list"
  camera :: "'f pyval"
  lights :: "'f pyval"

text \<open>\<^verbatim>\<open>PovrayScene()\<close>, lines 127 to 133.\<close>

definition PovrayScene_init :: "'f PovrayScene" where
  "PovrayScene_init = \<lparr>
     objects = [],
     camera = PyDict [(''location'', PyTuple [PyInt 0, PyInt 0, PyInt (- 10)]),
                      (''look_at'', PyTuple [PyInt 0, PyInt 0, PyInt 0])],
     lights = PyList [] \<rparr>"

text \<open>\<^verbatim>\<open>add_object\<close>, lines 135 to 137.\<close>

definition add_object :: "'f PovrayScene \<Rightarrow> 'f PovrayObject \<Rightarrow> 'f PovrayScene" where
  "add_object self obj = self\<lparr>objects := objects self @ [obj]\<rparr>"

text \<open>\<^verbatim>\<open>add_light\<close>, lines 139 to 145: only a list has \<^verbatim>\<open>append\<close>.\<close>

fun py_append :: "'f pyval \<Rightarrow> 'f pyval \<Rightarrow> py_error + 'f pyval" where
  "py_append (PyList xs) x = Inr (PyList (xs @ [x]))"
| "py_append _ x = Inl AttributeError"

definition add_light ::
  "'f PovrayScene \<Rightarrow> 'f pyval \<Rightarrow> 'f pyval \<Rightarrow> 'f pyval \<Rightarrow> py_error + 'f PovrayScene" where
  "add_light self pos col intens =
     py_bind (py_append (lights self)
        (PyDict [(''position'', pos), (''color'', col), (''intensity'', intens)]))
       (\<lambda>ls. Inr (self\<lparr>lights := ls\<rparr>))"

text \<open>\<^verbatim>\<open>self.camera[k][i]\<close>\<close>

definition camera_item :: "'f PovrayScene \<Rightarrow> string \<Rightarrow> nat \<Rightarrow> py_error + 'f pyval" where
  "camera_item self k i = py_bind (py_getkey (camera self) k) (\<lambda>v. py_getitem v i)"

text \<open>The camera block of \<^verbatim>\<open>generate_scene\<close>, lines 163 to 166.\<close>

definition camera_text :: "'f py_runtime \<Rightarrow> 'f PovrayScene \<Rightarrow> py_error + string" where
  "camera_text rt self =
     py_bind (camera_item self ''location'' 0) (\<lambda>x.
     py_bind (camera_item self ''location'' 1) (\<lambda>y.
     py_bind (camera_item self ''location'' 2) (\<lambda>z.
     py_bind (camera_item self ''look_at'' 0) (\<lambda>u.
     py_bind (camera_item self ''look_at'' 1) (\<lambda>v.
     py_bind (camera_item self ''look_at'' 2) (\<lambda>w.
       Inr (''camera {\<newline>    location <''
            @ py_str rt x @ '', '' @ py_str rt y @ '', '' @ py_str rt z
            @ ''>\<newline>    look_at <''
            @ py_str rt u @ '', '' @ py_str rt v @ '', '' @ py_str rt w
            @ ''>\<newline>}\<newline>\<newline>'')))))))"

text \<open>The body of the loop over the lights, lines 170 to 176.\<close>

definition light_text :: "'f py_runtime \<Rightarrow> 'f pyval \<Rightarrow> py_error + string" where
  "light_text rt light =
     py_bind (py_getkey light ''position'') (\<lambda>pos.
     py_bind (py_getkey light ''color'') (\<lambda>col.
     py_bind (fmt3 rt pos) (\<lambda>p.
     py_bind (fmt3 rt col) (\<lambda>c.
     py_bind (py_getkey light ''intensity'') (\<lambda>i.
       Inr (''light_source {\<newline>    <'' @ p
            @ ''>\<newline>    color rgb <'' @ c
            @ ''>\<newline>    intensity '' @ py_str rt i
            @ ''\<newline>}\<newline>\<newline>''))))))"

text \<open>\<^verbatim>\<open>for light in self.lights: scene += ...\<close>\<close>

fun lights_loop :: "'f py_runtime \<Rightarrow> string \<Rightarrow> 'f pyval list \<Rightarrow> py_error + string" where
  "lights_loop rt scene [] = Inr scene"
| "lights_loop rt scene (light # rest) =
     py_bind (light_text rt light) (\<lambda>t. lights_loop rt (scene @ t) rest)"

text \<open>\<^verbatim>\<open>for obj in self.objects: scene += obj.to_pov() + "\n"\<close>\<close>

fun objects_loop :: "'f py_runtime \<Rightarrow> string \<Rightarrow> 'f PovrayObject list \<Rightarrow> py_error + string" where
  "objects_loop rt scene [] = Inr scene"
| "objects_loop rt scene (obj # rest) =
     py_bind (to_pov rt obj) (\<lambda>t. objects_loop rt (scene @ t @ ''\<newline>'') rest)"

text \<open>\<^verbatim>\<open>generate_scene\<close>, lines 147 to 182.\<close>

definition generate_scene :: "'f py_runtime \<Rightarrow> 'f PovrayScene \<Rightarrow> py_error + string" where
  \<open>generate_scene rt self =
     py_bind (Inr (''#include "colors.inc"\<newline>''
                   @ ''#include "textures.inc"\<newline>''
                   @ ''#include "metals.inc"\<newline>''
                   @ ''#include "glass.inc"\<newline>\<newline>'')) (\<lambda>scene.
     py_bind (Inr (scene @ ''global_settings { ambient_light rgb<0.1, 0.1, 0.1> }\<newline>\<newline>''))
       (\<lambda>scene.
     py_bind (camera_text rt self) (\<lambda>c.
     py_bind (Inr (scene @ c)) (\<lambda>scene.
     py_bind (py_iter (lights self)) (\<lambda>ls.
     py_bind (lights_loop rt scene ls) (\<lambda>scene.
       objects_loop rt scene (objects self)))))))\<close>

text \<open>\<^verbatim>\<open>PovrayScene.to_dict\<close>, lines 184 to 190.\<close>

definition PovrayScene_to_dict :: "'f PovrayScene \<Rightarrow> 'f pyval" where
  "PovrayScene_to_dict self = PyDict [
     (''camera'', camera self),
     (''lights'', lights self),
     (''objects'', PyList (map PovrayObject_to_dict (objects self)))]"

text \<open>The comprehension \<^verbatim>\<open>[PovrayObject.from_dict(obj_data) for obj_data in ...]\<close>: it stops
  at the first item that raises.\<close>

fun from_dict_each :: "'f pyval list \<Rightarrow> py_error + 'f PovrayObject list" where
  "from_dict_each [] = Inr []"
| "from_dict_each (obj_data # rest) =
     py_bind (PovrayObject_from_dict obj_data) (\<lambda>obj.
     py_bind (from_dict_each rest) (\<lambda>objs. Inr (obj # objs)))"

text \<open>\<^verbatim>\<open>PovrayScene.from_dict\<close>, lines 192 to 199.\<close>

definition PovrayScene_from_dict :: "'f pyval \<Rightarrow> py_error + 'f PovrayScene" where
  "PovrayScene_from_dict data =
     py_bind (Inr PovrayScene_init) (\<lambda>scene.
     py_bind (py_getkey data ''camera'') (\<lambda>c.
     py_bind (Inr (scene\<lparr>camera := c\<rparr>)) (\<lambda>scene.
     py_bind (py_getkey data ''lights'') (\<lambda>l.
     py_bind (Inr (scene\<lparr>lights := l\<rparr>)) (\<lambda>scene.
     py_bind (py_getkey data ''objects'') (\<lambda>od.
     py_bind (py_iter od) (\<lambda>items.
     py_bind (from_dict_each items) (\<lambda>objs.
       Inr (scene\<lparr>objects := objs\<rparr>)))))))))"

subsection \<open>Loading into the session\<close>

text \<open>
  The upload handler of \<^verbatim>\<open>main\<close>, lines 396 to 400, on the document already read and parsed
  by \<^verbatim>\<open>load_scene\<close> (lines 232 to 236): the session's scene is assigned only when
  \<^verbatim>\<open>PovrayScene.from_dict\<close> returns; an exception is caught and reported. The result is
  the session's scene afterwards and the exception reported, if any.
\<close>

definition load_into_session ::
  "'f PovrayScene \<Rightarrow> 'f pyval \<Rightarrow> 'f PovrayScene \<times> py_error option" where
  "load_into_session session_scene data =
     (case PovrayScene_from_dict data of
        Inr scene \<Rightarrow> (scene, None)
      | Inl e \<Rightarrow> (session_scene, Some e))"

section \<open>The data model of the specification\<close>

text \<open>
  A Vector3 is a sequence of exactly three numbers; a well-formed primitive has a string
  for its kind, four Vector3 fields and a texture that is a name or \<^verbatim>\<open>None\<close>; a
  well-formed light has a position, a color and a numeric intensity; a well-formed camera
  has a location and a look-at point; a well-formed scene has such a camera, a list of
  such lights and a list of such primitives.
\<close>

fun is_number :: "'f pyval \<Rightarrow> bool" where
  "is_number (PyInt i) = True"
| "is_number (PyFloat x) = True"
| "is_number _ = False"

fun is_vector3 :: "'f pyval \<Rightarrow> bool" where
  "is_vector3 (PyTuple xs) = (length xs = 3 \<and> list_all is_number xs)"
| "is_vector3 (PyList xs) = (length xs = 3 \<and> list_all is_number xs)"
| "is_vector3 _ = False"

fun is_name :: "'f pyval \<Rightarrow> bool" where
  "is_name (PyStr s) = True"
| "is_name _ = False"

text \<open>The member \<open>k\<close> of a record, \<^verbatim>\<open>None\<close> where there is none.\<close>

definition member_of :: "'f pyval \<Rightarrow> string \<Rightarrow> 'f pyval" where
  "member_of v k = (case py_getkey v k of Inr x \<Rightarrow> x | Inl e \<Rightarrow> PyNone)"

definition wf_object :: "'f PovrayObject \<Rightarrow> bool" where
  "wf_object obj \<longleftrightarrow>
     is_name (obj_type obj) \<and> is_vector3 (position obj) \<and> is_vector3 (rotation obj) \<and>
     is_vector3 (scale obj) \<and> is_vector3 (color obj) \<and>
     (texture obj = PyNone \<or> is_name (texture obj))"

definition wf_light :: "'f pyval \<Rightarrow> bool" where
  "wf_light light \<longleftrightarrow>
     is_vector3 (member_of light ''position'') \<and> is_vector3 (member_of light ''color'') \<and>
     is_number (member_of light ''intensity'')"

definition wf_camera :: "'f pyval \<Rightarrow> bool" where
  "wf_camera cam \<longleftrightarrow>
     is_vector3 (member_of cam ''location'') \<and> is_vector3 (member_of cam ''look_at'')"

fun wf_lights :: "'f pyval \<Rightarrow> bool" where
  "wf_lights (PyList ls) = list_all wf_light ls"
| "wf_lights _ = False"

definition wf_scene :: "'f PovrayScene \<Rightarrow> bool" where
  "wf_scene s \<longleftrightarrow>
     wf_camera (camera s) \<and> wf_lights (lights s) \<and> list_all wf_object (objects s)"

subsection \<open>The blocks of the generated document\<close>

text \<open>The components of a vector, and the text \<open>x, y, z\<close> of a Vector3.\<close>

fun items :: "'f pyval \<Rightarrow> 'f pyval list" where
  "items (PyTuple xs) = xs"
| "items (PyList xs) = xs"
| "items _ = []"

definition vec_text :: "'f py_runtime \<Rightarrow> 'f pyval \<Rightarrow> string" where
  "vec_text rt v = comma_join (map (py_str rt) (items v))"

definition preamble :: string where
  \<open>preamble = ''#include "colors.inc"\<newline>#include "textures.inc"\<newline>#include "metals.inc"\<newline>#include "glass.inc"\<newline>\<newline>''\<close>

definition ambient_line :: string where
  "ambient_line = ''global_settings { ambient_light rgb<0.1, 0.1, 0.1> }\<newline>\<newline>''"

definition camera_block :: "'f py_runtime \<Rightarrow> 'f pyval \<Rightarrow> string" where
  "camera_block rt cam =
     ''camera {\<newline>    location <'' @ vec_text rt (member_of cam ''location'')
     @ ''>\<newline>    look_at <'' @ vec_text rt (member_of cam ''look_at'')
     @ ''>\<newline>}\<newline>\<newline>''"

definition light_block :: "'f py_runtime \<Rightarrow> 'f pyval \<Rightarrow> string" where
  "light_block rt light =
     ''light_source {\<newline>    <'' @ vec_text rt (member_of light ''position'')
     @ ''>\<newline>    color rgb <'' @ vec_text rt (member_of light ''color'')
     @ ''>\<newline>    intensity '' @ py_str rt (member_of light ''intensity'')
     @ ''\<newline>}\<newline>\<newline>''"

text \<open>The lines of an object block: the opening with the shape keyword, the three
  transforms, the two possible appearance lines, the closing.\<close>

definition shape_lines :: "string \<Rightarrow> string" where
  "shape_lines kind = ''object {\<newline>    '' @ kind @ ''\<newline>''"

definition transform_lines :: "'f py_runtime \<Rightarrow> 'f PovrayObject \<Rightarrow> string" where
  "transform_lines rt obj =
     ''    translate <'' @ vec_text rt (position obj) @ ''>\<newline>''
     @ ''    rotate <'' @ vec_text rt (rotation obj) @ ''>\<newline>''
     @ ''    scale <'' @ vec_text rt (scale obj) @ ''>\<newline>''"

definition texture_line :: "string \<Rightarrow> string" where
  "texture_line name = ''    texture { '' @ name @ '' }\<newline>''"

definition pigment_line :: "'f py_runtime \<Rightarrow> 'f pyval \<Rightarrow> string" where
  "pigment_line rt col = ''    pigment { color rgb <'' @ vec_text rt col @ ''> }\<newline>''"

definition closing_line :: string where
  "closing_line = ''}\<newline>''"

definition object_block :: "'f py_runtime \<Rightarrow> 'f PovrayObject \<Rightarrow> string" where
  "object_block rt obj =
     shape_lines (py_str rt (obj_type obj)) @ transform_lines rt obj
     @ (if py_truthy rt (texture obj) then texture_line (py_str rt (texture obj))
        else pigment_line rt (color obj))
     @ closing_line"

subsection \<open>Decoding a primitive record\<close>

fun entries :: "'f pyval \<Rightarrow> (string \<times> 'f pyval) list" where
  "entries (PyDict kvs) = kvs"
| "entries _ = []"

text \<open>A primitive record that \<^verbatim>\<open>PovrayObject.from_dict\<close> accepts, and the object it
  yields: a field that the record lacks has the default of the constructor.\<close>

fun accepted :: "'f pyval \<Rightarrow> bool" where
  "accepted (PyDict kvs) =
     (list_all (\<lambda>k. k \<in> set init_params) (map fst kvs) \<and> map_of kvs ''obj_type'' \<noteq> None)"
| "accepted _ = False"

definition decoded :: "'f pyval \<Rightarrow> 'f PovrayObject" where
  "decoded d = \<lparr>
     obj_type = member_of d ''obj_type'',
     position = arg_or (entries d) ''position'' (PyTuple [PyInt 0, PyInt 0, PyInt 0]),
     rotation = arg_or (entries d) ''rotation'' (PyTuple [PyInt 0, PyInt 0, PyInt 0]),
     scale = arg_or (entries d) ''scale'' (PyTuple [PyInt 1, PyInt 1, PyInt 1]),
     color = arg_or (entries d) ''color'' (PyTuple [PyInt 1, PyInt 1, PyInt 1]),
     texture = arg_or (entries d) ''texture'' PyNone \<rparr>"

section \<open>A runtime for examples\<close>

text \<open>
  For evaluating the program on concrete scenes: a float is given by a decimal
  \<open>m / 10 ^ k\<close> with \<open>k \<ge> 1\<close>, shown as Python shows the float nearest to it when the
  decimal is short (\<open>Dec 8 1\<close> is \<^verbatim>\<open>0.8\<close>, \<open>Dec 10 1\<close> is \<^verbatim>\<open>1.0\<close>), and a string of
  printable ASCII characters without quotes or backslashes is shown between single quotes.
\<close>

datatype dec = Dec int nat

fun dec_repr :: "dec \<Rightarrow> string" where
  "dec_repr (Dec m k) =
     (let a = nat \<bar>m\<bar>; f = digits (a mod 10 ^ k)
      in (if m < 0 then ''-'' else []) @ digits (a div 10 ^ k) @ ''.''
         @ replicate (k - length f) CHR ''0'' @ f)"

fun dec_bool :: "dec \<Rightarrow> bool" where
  "dec_bool (Dec m k) = (m \<noteq> 0)"

definition example_rt :: "dec py_runtime" where
  "example_rt = \<lparr> float_repr = dec_repr, float_bool = dec_bool,
                  str_repr = (\<lambda>s. CHR 0x27 # s @ [CHR 0x27]) \<rparr>"

section \<open>Example data\<close>

text \<open>The scene of the specification's scenario: camera at (8, 6, -10) looking at the
  origin, one light at (10, 10, -10) of intensity 1.0, one red sphere at (-2, 0, 0)
  without texture.\<close>

definition red_sphere :: "dec PovrayObject" where
  "red_sphere = \<lparr>
     obj_type = PyStr ''sphere'',
     position = PyTuple [PyInt (- 2), PyInt 0, PyInt 0],
     rotation = PyTuple [PyInt 0, PyInt 0, PyInt 0],
     scale = PyTuple [PyInt 1, PyInt 1, PyInt 1],
     color = PyTuple [PyFloat (Dec 8 1), PyFloat (Dec 2 1), PyFloat (Dec 2 1)],
     texture = PyNone \<rparr>"

definition key_light :: "dec pyval" where
  "key_light = PyDict [
     (''position'', PyTuple [PyInt 10, PyInt 10, PyInt (- 10)]),
     (''color'', PyTuple [PyInt 1, PyInt 1, PyInt 1]),
     (''intensity'', PyFloat (Dec 10 1))]"

definition scenario_camera :: "dec pyval" where
  "scenario_camera = PyDict [
     (''location'', PyTuple [PyInt 8, PyInt 6, PyInt (- 10)]),
     (''look_at'', PyTuple [PyInt 0, PyInt 0, PyInt 0])]"

definition scenario :: "dec PovrayScene" where
  "scenario = \<lparr> objects = [red_sphere], camera = scenario_camera, lights = PyList [key_light] \<rparr>"

text \<open>A scene without lights and objects.\<close>

definition bare_scene :: "dec PovrayScene" where
  "bare_scene = \<lparr> objects = [], camera = scenario_camera, lights = PyList [] \<rparr>"

text \<open>The first object of the demo scene \<^verbatim>\<open>"Three Platonic Solids"\<close>, lines 26 to 30.\<close>

definition chrome_sphere :: "dec PovrayObject" where
  "chrome_sphere = \<lparr>
     obj_type = PyStr ''sphere'',
     position = PyTuple [PyInt (- 2), PyInt 0, PyInt 0],
     rotation = PyTuple [PyInt 0, PyInt 0, PyInt 0],
     scale = PyTuple [PyInt 1, PyInt 1, PyInt 1],
     color = PyTuple [PyFloat (Dec 8 1), PyFloat (Dec 2 1), PyFloat (Dec 2 1)],
     texture = PyStr ''Chrome_Metal'' \<rparr>"

text \<open>A persisted document whose only primitive has a position of two components and
  neither rotation nor scale.\<close>

definition short_record :: "dec pyval" where
  "short_record = PyDict [
     (''camera'', scenario_camera),
     (''lights'', PyList [key_light]),
     (''objects'', PyList [PyDict [
        (''obj_type'', PyStr ''sphere''),
        (''position'', PyList [PyInt 1, PyInt 2])]])]"

text \<open>A persisted document without the member \<^verbatim>\<open>objects\<close>.\<close>

definition no_objects_record :: "dec pyval" where
  "no_objects_record = PyDict [(''camera'', scenario_camera), (''lights'', PyList [key_light])]"

section \<open>Basic facts\<close>

lemma py_bind_Inr [simp]: "py_bind (Inr x) f = f x"
  by (simp add: py_bind_def)

lemma py_bind_Inl [simp]: "py_bind (Inl e) f = Inl e"
  by (simp add: py_bind_def)

lemma is_vector3_items:
  assumes "is_vector3 v"
  obtains a b c where "items v = [a, b, c]" "v = PyTuple [a, b, c] \<or> v = PyList [a, b, c]"
proof -
  from assms obtain xs where v: "v = PyTuple xs \<or> v = PyList xs" and len: "length xs = 3"
    by (cases v) auto
  from len obtain a b c where "xs = [a, b, c]"
    by (auto simp: length_Suc_conv numeral_3_eq_3)
  with v show thesis
    by (intro that [of a b c]) auto
qed

lemma fmt3_vector3: "is_vector3 v \<Longrightarrow> fmt3 rt v = Inr (vec_text rt v)"
  by (erule is_vector3_items) (auto simp: fmt3_def vec_text_def)

lemma to_pov_block:
  assumes "is_vector3 (position obj)" "is_vector3 (rotation obj)" "is_vector3 (scale obj)"
    and "py_truthy rt (texture obj) \<or> is_vector3 (color obj)"
  shows "to_pov rt obj = Inr (object_block rt obj)"
  using assms
  by (auto simp: to_pov_def object_block_def fmt3_vector3 shape_lines_def transform_lines_def
      texture_line_def pigment_line_def closing_line_def)

lemma to_pov_wf: "wf_object obj \<Longrightarrow> to_pov rt obj = Inr (object_block rt obj)"
  by (rule to_pov_block) (auto simp: wf_object_def)

lemma member_of_getkey:
  "is_vector3 (member_of d k) \<or> is_number (member_of d k) \<Longrightarrow> py_getkey d k = Inr (member_of d k)"
  by (cases "py_getkey d k") (auto simp: member_of_def)

lemma camera_text_wf:
  assumes "wf_camera (camera s)"
  shows "camera_text rt s = Inr (camera_block rt (camera s))"
proof -
  from assms have loc: "is_vector3 (member_of (camera s) ''location'')"
    and look: "is_vector3 (member_of (camera s) ''look_at'')"
    by (simp_all add: wf_camera_def)
  have gl: "py_getkey (camera s) ''location'' = Inr (member_of (camera s) ''location'')"
    using loc by (simp add: member_of_getkey)
  have gk: "py_getkey (camera s) ''look_at'' = Inr (member_of (camera s) ''look_at'')"
    using look by (simp add: member_of_getkey)
  from loc obtain x y z where l: "items (member_of (camera s) ''location'') = [x, y, z]"
    "member_of (camera s) ''location'' = PyTuple [x, y, z]
      \<or> member_of (camera s) ''location'' = PyList [x, y, z]"
    by (rule is_vector3_items)
  from look obtain u v w where k: "items (member_of (camera s) ''look_at'') = [u, v, w]"
    "member_of (camera s) ''look_at'' = PyTuple [u, v, w]
      \<or> member_of (camera s) ''look_at'' = PyList [u, v, w]"
    by (rule is_vector3_items)
  have li: "camera_item s ''location'' 0 = Inr x" "camera_item s ''location'' (Suc 0) = Inr y"
    "camera_item s ''location'' 2 = Inr z"
    using l(2) by (auto simp: camera_item_def gl)
  have ki: "camera_item s ''look_at'' 0 = Inr u" "camera_item s ''look_at'' (Suc 0) = Inr v"
    "camera_item s ''look_at'' 2 = Inr w"
    using k(2) by (auto simp: camera_item_def gk)
  show ?thesis
    by (simp add: camera_text_def camera_block_def li ki vec_text_def l(1) k(1))
qed

lemma light_text_wf:
  assumes "wf_light light"
  shows "light_text rt light = Inr (light_block rt light)"
  using assms
  by (simp add: wf_light_def light_text_def light_block_def member_of_getkey fmt3_vector3)

lemma lights_loop_wf:
  "list_all wf_light ls \<Longrightarrow>
   lights_loop rt acc ls = Inr (acc @ concat (map (light_block rt) ls))"
  by (induction ls arbitrary: acc) (simp_all add: light_text_wf)

lemma objects_loop_wf:
  "list_all wf_object objs \<Longrightarrow>
   objects_loop rt acc objs =
     Inr (acc @ concat (map (\<lambda>obj. object_block rt obj @ ''\<newline>'') objs))"
  by (induction objs arbitrary: acc) (simp_all add: to_pov_wf)

lemma generate_scene_wf:
  assumes "wf_camera (camera s)" "lights s = PyList ls" "list_all wf_light ls"
    "list_all wf_object (objects s)"
  shows "generate_scene rt s =
     Inr (preamble @ ambient_line @ camera_block rt (camera s)
          @ concat (map (light_block rt) ls)
          @ concat (map (\<lambda>obj. object_block rt obj @ ''\<newline>'') (objects s)))"
  using assms
  by (simp add: generate_scene_def camera_text_wf lights_loop_wf objects_loop_wf
      preamble_def ambient_line_def)

lemma from_dict_accepted:
  "accepted d \<Longrightarrow> PovrayObject_from_dict d = Inr (decoded d)"
  by (cases d)
     (auto simp: PovrayObject_init_def decoded_def member_of_def list_all_iff
       split: option.splits)

lemma from_dict_each_accepted:
  "list_all accepted ds \<Longrightarrow> from_dict_each ds = Inr (map decoded ds)"
  by (induction ds) (simp_all add: from_dict_accepted)

lemma accepted_to_dict: "accepted (PovrayObject_to_dict obj)"
  by (simp add: PovrayObject_to_dict_def init_params_def)

lemma decoded_to_dict: "decoded (PovrayObject_to_dict obj) = obj"
  by (simp add: PovrayObject_to_dict_def decoded_def member_of_def arg_or_def)

lemma from_dict_members:
  assumes "map_of kvs ''camera'' = Some c" "map_of kvs ''lights'' = Some l"
    "map_of kvs ''objects'' = Some (PyList ds)" "list_all accepted ds"
  shows "PovrayScene_from_dict (PyDict kvs) = Inr \<lparr>objects = map decoded ds, camera = c, lights = l\<rparr>"
  using assms
  by (simp add: PovrayScene_from_dict_def from_dict_each_accepted PovrayScene_init_def)

section \<open>The claims\<close>

text \<open>
  C1. Round trip of the persistence codec: for every scene \<open>s\<close>, whatever its camera, its
  lights and the fields of its objects hold, \<^verbatim>\<open>PovrayScene.from_dict\<close> applied to
  \<^verbatim>\<open>s.to_dict()\<close> returns, without an exception, a scene with the same camera, the same
  lights and the same list of objects with the same six fields each.
\<close>

theorem from_dict_to_dict: "PovrayScene_from_dict (PovrayScene_to_dict s) = Inr s"
proof -
  have "list_all accepted (map PovrayObject_to_dict (objects s))"
    by (simp add: list_all_iff accepted_to_dict)
  then have "PovrayScene_from_dict (PovrayScene_to_dict s) =
      Inr \<lparr>objects = map decoded (map PovrayObject_to_dict (objects s)),
           camera = camera s, lights = lights s\<rparr>"
    unfolding PovrayScene_to_dict_def by (intro from_dict_members) simp_all
  then show ?thesis
    by (simp add: decoded_to_dict comp_def)
qed

theorem from_dict_to_dict_witness:
  "PovrayScene_from_dict (PovrayScene_to_dict scenario) = Inr scenario"
  using from_dict_to_dict [of scenario] by simp

text \<open>
  C2, as the code has it. \<^verbatim>\<open>PovrayObject.from_dict\<close> checks neither the presence of
  \<^verbatim>\<open>position\<close>, \<^verbatim>\<open>rotation\<close> and \<^verbatim>\<open>scale\<close> nor the shape of a vector: the document
  \<open>short_record\<close>, whose primitive has a position of two components and neither rotation nor
  scale, is decoded into a scene.
\<close>

theorem short_record_decodes:
  "PovrayScene_from_dict short_record = Inr \<lparr>
     objects = [\<lparr>
       obj_type = PyStr ''sphere'',
       position = PyList [PyInt 1, PyInt 2],
       rotation = PyTuple [PyInt 0, PyInt 0, PyInt 0],
       scale = PyTuple [PyInt 1, PyInt 1, PyInt 1],
       color = PyTuple [PyInt 1, PyInt 1, PyInt 1],
       texture = PyNone \<rparr>],
     camera = scenario_camera,
     lights = PyList [key_light] \<rparr>"
  by (simp add: short_record_def PovrayScene_from_dict_def PovrayScene_init_def
      PovrayObject_init_def init_params_def arg_or_def)

text \<open>
  C2, amended. Decoding a document that has the members \<^verbatim>\<open>camera\<close>, \<^verbatim>\<open>lights\<close> and
  \<^verbatim>\<open>objects\<close>, the last a list of primitive records that each have \<^verbatim>\<open>obj_type\<close> and no
  key besides the six field names, returns a scene: its camera and lights are the members
  as given, and each primitive is decoded field by field. A geometric field (position,
  rotation, scale) that the record lacks gets the default (0,0,0), (0,0,0), (1,1,1), and
  one that is present is stored as it is, whatever its shape. No error is raised.
\<close>

theorem from_dict_no_shape_check:
  assumes "map_of kvs ''camera'' = Some c" "map_of kvs ''lights'' = Some l"
    and "map_of kvs ''objects'' = Some (PyList ds)" "list_all accepted ds"
  shows "PovrayScene_from_dict (PyDict kvs) =
           Inr \<lparr>objects = map decoded ds, camera = c, lights = l\<rparr>
    \<and> (\<forall>okvs.
         position (decoded (PyDict okvs)) =
           (case map_of okvs ''position'' of
              None \<Rightarrow> PyTuple [PyInt 0, PyInt 0, PyInt 0] | Some v \<Rightarrow> v)
       \<and> rotation (decoded (PyDict okvs)) =
           (case map_of okvs ''rotation'' of
              None \<Rightarrow> PyTuple [PyInt 0, PyInt 0, PyInt 0] | Some v \<Rightarrow> v)
       \<and> scale (decoded (PyDict okvs)) =
           (case map_of okvs ''scale'' of
              None \<Rightarrow> PyTuple [PyInt 1, PyInt 1, PyInt 1] | Some v \<Rightarrow> v))"
  using assms by (simp add: from_dict_members decoded_def arg_or_def)

theorem from_dict_no_shape_check_witness:
  "PovrayScene_from_dict (PyDict [
       (''camera'', scenario_camera), (''lights'', PyList [key_light]),
       (''objects'', PyList [PyDict [(''obj_type'', PyStr ''box''),
                                     (''scale'', PyTuple [PyInt 3])]])]) =
     Inr \<lparr>
       objects = [\<lparr>
         obj_type = PyStr ''box'',
         position = PyTuple [PyInt 0, PyInt 0, PyInt 0],
         rotation = PyTuple [PyInt 0, PyInt 0, PyInt 0],
         scale = PyTuple [PyInt 3],
         color = PyTuple [PyInt 1, PyInt 1, PyInt 1],
         texture = PyNone \<rparr>],
       camera = scenario_camera,
       lights = PyList [key_light] \<rparr>"
  using from_dict_no_shape_check [of
      "[(''camera'', scenario_camera), (''lights'', PyList [key_light]),
        (''objects'', PyList [PyDict [(''obj_type'', PyStr ''box''),
                                      (''scale'', PyTuple [PyInt 3])]])]"
      scenario_camera "PyList [key_light]"
      "[PyDict [(''obj_type'', PyStr ''box''), (''scale'', PyTuple [PyInt 3])]]"]
  by (simp add: init_params_def decoded_def member_of_def arg_or_def)

text \<open>
  C3. Decoding a document that lacks \<^verbatim>\<open>camera\<close>, \<^verbatim>\<open>lights\<close> or \<^verbatim>\<open>objects\<close> fails:
  \<^verbatim>\<open>PovrayScene.from_dict\<close> raises the \<^verbatim>\<open>KeyError\<close> of the first of the three that is
  absent (the decoding failure that the specification calls MalformedRecord) and returns
  no scene; the upload handler then reports the error and the scene of the session is the
  one it was before.
\<close>

theorem from_dict_missing_member:
  assumes "map_of kvs ''camera'' = None \<or> map_of kvs ''lights'' = None
            \<or> map_of kvs ''objects'' = None"
  shows "\<exists>k. (k = ''camera'' \<or> k = ''lights'' \<or> k = ''objects'') \<and> map_of kvs k = None
          \<and> PovrayScene_from_dict (PyDict kvs) = Inl (KeyError k)
          \<and> load_into_session current (PyDict kvs) = (current, Some (KeyError k))"
proof (cases "map_of kvs ''camera''")
  case None
  then show ?thesis
    by (intro exI [of _ "''camera''"]) (simp add: PovrayScene_from_dict_def load_into_session_def)
next
  case c: (Some c)
  show ?thesis
  proof (cases "map_of kvs ''lights''")
    case None
    with c show ?thesis
      by (intro exI [of _ "''lights''"])
         (simp add: PovrayScene_from_dict_def load_into_session_def)
  next
    case (Some l)
    with c assms have "map_of kvs ''objects'' = None" by simp
    with c Some show ?thesis
      by (intro exI [of _ "''objects''"])
         (simp add: PovrayScene_from_dict_def load_into_session_def)
  qed
qed

theorem from_dict_missing_member_witness:
  "map_of (entries no_objects_record) ''objects'' = None
   \<and> PovrayScene_from_dict no_objects_record = Inl (KeyError ''objects'')
   \<and> load_into_session scenario no_objects_record = (scenario, Some (KeyError ''objects''))"
proof -
  have m: "map_of (entries no_objects_record) ''objects'' = None"
    "map_of (entries no_objects_record) ''camera'' \<noteq> None"
    "map_of (entries no_objects_record) ''lights'' \<noteq> None"
    by (simp_all add: no_objects_record_def)
  have d: "PyDict (entries no_objects_record) = no_objects_record"
    by (simp add: no_objects_record_def)
  from from_dict_missing_member [of "entries no_objects_record" scenario] m(1) obtain k where
    "map_of (entries no_objects_record) k = None"
    "k = ''camera'' \<or> k = ''lights'' \<or> k = ''objects''"
    "PovrayScene_from_dict (PyDict (entries no_objects_record)) = Inl (KeyError k)"
    "load_into_session scenario (PyDict (entries no_objects_record)) =
       (scenario, Some (KeyError k))"
    by blast
  with m d show ?thesis by auto
qed

text \<open>
  C4. For every well-formed scene, \<^verbatim>\<open>generate_scene\<close> returns a text and raises no
  exception. The text is a function of the camera, the lights and the objects of the scene
  (and of how the interpreter shows a number) and of nothing else, so a second call on a
  scene with the same three members returns the same text.
\<close>

theorem generate_scene_total:
  assumes "wf_scene s"
  shows "\<exists>out. generate_scene rt s = Inr out
          \<and> (\<forall>s'. camera s' = camera s \<and> lights s' = lights s \<and> objects s' = objects s
                \<longrightarrow> generate_scene rt s' = Inr out)"
proof -
  from assms obtain ls where ls: "lights s = PyList ls" "list_all wf_light ls"
    by (cases "lights s") (auto simp: wf_scene_def)
  from assms have cam: "wf_camera (camera s)" and objs: "list_all wf_object (objects s)"
    by (simp_all add: wf_scene_def)
  let ?out = "preamble @ ambient_line @ camera_block rt (camera s)
      @ concat (map (light_block rt) ls)
      @ concat (map (\<lambda>obj. object_block rt obj @ ''\<newline>'') (objects s))"
  have "generate_scene rt s' = Inr ?out"
    if "camera s' = camera s \<and> lights s' = lights s \<and> objects s' = objects s" for s'
    using that cam ls objs generate_scene_wf [of s' ls rt] by simp
  then show ?thesis by blast
qed

theorem generate_scene_total_witness:
  "wf_scene scenario
   \<and> camera (add_object bare_scene red_sphere\<lparr>lights := PyList [key_light]\<rparr>) = camera scenario
   \<and> lights (add_object bare_scene red_sphere\<lparr>lights := PyList [key_light]\<rparr>) = lights scenario
   \<and> objects (add_object bare_scene red_sphere\<lparr>lights := PyList [key_light]\<rparr>) = objects scenario
   \<and> (\<exists>out. generate_scene example_rt scenario = Inr out
         \<and> generate_scene example_rt
               (add_object bare_scene red_sphere\<lparr>lights := PyList [key_light]\<rparr>) = Inr out)"
proof -
  have wf: "wf_scene scenario"
    by (simp add: wf_scene_def wf_camera_def wf_light_def wf_object_def member_of_def
        scenario_def scenario_camera_def key_light_def red_sphere_def)
  have same: "camera (add_object bare_scene red_sphere\<lparr>lights := PyList [key_light]\<rparr>) = camera scenario"
    "lights (add_object bare_scene red_sphere\<lparr>lights := PyList [key_light]\<rparr>) = lights scenario"
    "objects (add_object bare_scene red_sphere\<lparr>lights := PyList [key_light]\<rparr>) = objects scenario"
    by (simp_all add: add_object_def bare_scene_def scenario_def)
  from generate_scene_total [OF wf, of example_rt] obtain out where
    "generate_scene example_rt scenario = Inr out"
    "\<forall>s'. camera s' = camera scenario \<and> lights s' = lights scenario
        \<and> objects s' = objects scenario \<longrightarrow> generate_scene example_rt s' = Inr out"
    by blast
  with same have "generate_scene example_rt scenario = Inr out
      \<and> generate_scene example_rt
          (add_object bare_scene red_sphere\<lparr>lights := PyList [key_light]\<rparr>) = Inr out"
    by blast
  with wf same show ?thesis by blast
qed

text \<open>
  C5, as the code has it. The choice is made by the truth value of the texture, so a
  texture that is present but empty does not give a texture reference: the object below
  has the texture \<^verbatim>\<open>""\<close>, and its fragment carries the pigment line.
\<close>

theorem empty_texture_gives_pigment:
  "texture (chrome_sphere\<lparr>texture := PyStr ''''\<rparr>) \<noteq> PyNone
   \<and> to_pov example_rt (chrome_sphere\<lparr>texture := PyStr ''''\<rparr>) =
       Inr (''object {\<newline>''
            @ ''    sphere\<newline>''
            @ ''    translate <-2, 0, 0>\<newline>''
            @ ''    rotate <0, 0, 0>\<newline>''
            @ ''    scale <1, 1, 1>\<newline>''
            @ ''    pigment { color rgb <0.8, 0.2, 0.2> }\<newline>''
            @ ''}\<newline>'')"
  by (simp add: chrome_sphere_def to_pov_def fmt3_def example_rt_def int_str_def digits.simps)

text \<open>
  C5, amended. For every primitive whose position, rotation and scale are vectors of three
  numbers: if its texture is a non-empty name, the fragment is the opening with the shape
  keyword, the three transform lines, the texture reference to that name and the closing,
  so it has no pigment line, and the fragment is the same whatever the color is; if its
  texture is \<^verbatim>\<open>None\<close> and its color is a vector of three numbers, the fragment is the
  opening, the three transform lines, the pigment line with the three color components and
  the closing, so it has no texture reference.
\<close>

theorem to_pov_appearance:
  assumes "is_vector3 (position obj)" "is_vector3 (rotation obj)" "is_vector3 (scale obj)"
  shows "(\<forall>name. texture obj = PyStr name \<and> name \<noteq> [] \<longrightarrow>
            to_pov rt obj = Inr (shape_lines (py_str rt (obj_type obj)) @ transform_lines rt obj
                                 @ texture_line name @ closing_line)
            \<and> (\<forall>c. to_pov rt (obj\<lparr>color := c\<rparr>) = to_pov rt obj))
       \<and> (texture obj = PyNone \<and> is_vector3 (color obj) \<longrightarrow>
            to_pov rt obj = Inr (shape_lines (py_str rt (obj_type obj)) @ transform_lines rt obj
                                 @ pigment_line rt (color obj) @ closing_line))"
proof (intro conjI allI impI)
  fix name assume t: "texture obj = PyStr name \<and> name \<noteq> []"
  then have truthy: "py_truthy rt (texture obj)" by simp
  with assms have "to_pov rt obj = Inr (object_block rt obj)"
    by (intro to_pov_block) simp_all
  with t show "to_pov rt obj = Inr (shape_lines (py_str rt (obj_type obj))
      @ transform_lines rt obj @ texture_line name @ closing_line)"
    by (simp add: object_block_def)
  fix c
  from assms truthy have "to_pov rt (obj\<lparr>color := c\<rparr>) = Inr (object_block rt (obj\<lparr>color := c\<rparr>))"
    by (intro to_pov_block) simp_all
  moreover have "object_block rt (obj\<lparr>color := c\<rparr>) = object_block rt obj"
    using truthy by (simp add: object_block_def transform_lines_def)
  ultimately show "to_pov rt (obj\<lparr>color := c\<rparr>) = to_pov rt obj"
    using \<open>to_pov rt obj = Inr (object_block rt obj)\<close> by simp
next
  assume n: "texture obj = PyNone \<and> is_vector3 (color obj)"
  with assms have "to_pov rt obj = Inr (object_block rt obj)"
    by (intro to_pov_block) simp_all
  with n show "to_pov rt obj = Inr (shape_lines (py_str rt (obj_type obj))
      @ transform_lines rt obj @ pigment_line rt (color obj) @ closing_line)"
    by (simp add: object_block_def)
qed

theorem to_pov_appearance_witness:
  "is_vector3 (position chrome_sphere) \<and> is_vector3 (rotation chrome_sphere)
   \<and> is_vector3 (scale chrome_sphere) \<and> texture chrome_sphere = PyStr ''Chrome_Metal''
   \<and> to_pov example_rt chrome_sphere =
       Inr (''object {\<newline>''
            @ ''    sphere\<newline>''
            @ ''    translate <-2, 0, 0>\<newline>''
            @ ''    rotate <0, 0, 0>\<newline>''
            @ ''    scale <1, 1, 1>\<newline>''
            @ ''    texture { Chrome_Metal }\<newline>''
            @ ''}\<newline>'')
   \<and> texture red_sphere = PyNone \<and> is_vector3 (color red_sphere)
   \<and> is_vector3 (position red_sphere) \<and> is_vector3 (rotation red_sphere)
   \<and> is_vector3 (scale red_sphere)
   \<and> to_pov example_rt red_sphere =
       Inr (''object {\<newline>''
            @ ''    sphere\<newline>''
            @ ''    translate <-2, 0, 0>\<newline>''
            @ ''    rotate <0, 0, 0>\<newline>''
            @ ''    scale <1, 1, 1>\<newline>''
            @ ''    pigment { color rgb <0.8, 0.2, 0.2> }\<newline>''
            @ ''}\<newline>'')"
proof -
  have c: "is_vector3 (position chrome_sphere)" "is_vector3 (rotation chrome_sphere)"
    "is_vector3 (scale chrome_sphere)" "texture chrome_sphere = PyStr ''Chrome_Metal''"
    by (simp_all add: chrome_sphere_def)
  have r: "is_vector3 (position red_sphere)" "is_vector3 (rotation red_sphere)"
    "is_vector3 (scale red_sphere)" "texture red_sphere = PyNone" "is_vector3 (color red_sphere)"
    by (simp_all add: red_sphere_def)
  have "to_pov example_rt chrome_sphere =
      Inr (shape_lines (py_str example_rt (obj_type chrome_sphere))
           @ transform_lines example_rt chrome_sphere
           @ texture_line ''Chrome_Metal'' @ closing_line)"
    using to_pov_appearance [OF c(1-3), of example_rt] c(4) by simp
  moreover have "to_pov example_rt red_sphere =
      Inr (shape_lines (py_str example_rt (obj_type red_sphere))
           @ transform_lines example_rt red_sphere
           @ pigment_line example_rt (color red_sphere) @ closing_line)"
    using to_pov_appearance [OF r(1-3), of example_rt] r(4,5) by simp
  ultimately show ?thesis
    using c r
    by (simp add: shape_lines_def transform_lines_def texture_line_def pigment_line_def
        closing_line_def vec_text_def chrome_sphere_def red_sphere_def example_rt_def
        int_str_def digits.simps)
qed

text \<open>
  C6. For every well-formed scene the generated document is, in this order: the four
  include lines, the ambient-light line, one camera block with the location and the
  look-at point of the camera, one light block for each light in the order of the list
  (position, color, intensity), one object block followed by an empty line for each object
  in the order of the list. Without lights and objects it is the include lines, the
  ambient-light line and the camera block, and nothing else.
\<close>

theorem generate_scene_layout:
  assumes "wf_scene s"
  shows "generate_scene rt s =
           Inr (preamble @ ambient_line @ camera_block rt (camera s)
                @ concat (map (light_block rt) (items (lights s)))
                @ concat (map (\<lambda>obj. object_block rt obj @ ''\<newline>'') (objects s)))
       \<and> (items (lights s) = [] \<and> objects s = [] \<longrightarrow>
            generate_scene rt s = Inr (preamble @ ambient_line @ camera_block rt (camera s)))"
proof -
  from assms obtain ls where ls: "lights s = PyList ls" "list_all wf_light ls"
    by (cases "lights s") (auto simp: wf_scene_def)
  from assms have "wf_camera (camera s)" "list_all wf_object (objects s)"
    by (simp_all add: wf_scene_def)
  with ls have "generate_scene rt s =
      Inr (preamble @ ambient_line @ camera_block rt (camera s)
           @ concat (map (light_block rt) ls)
           @ concat (map (\<lambda>obj. object_block rt obj @ ''\<newline>'') (objects s)))"
    by (intro generate_scene_wf)
  with ls(1) show ?thesis by simp
qed

theorem generate_scene_layout_witness:
  \<open>wf_scene bare_scene \<and> items (lights bare_scene) = [] \<and> objects bare_scene = []
   \<and> generate_scene example_rt bare_scene =
       Inr (''#include "colors.inc"\<newline>''
            @ ''#include "textures.inc"\<newline>''
            @ ''#include "metals.inc"\<newline>''
            @ ''#include "glass.inc"\<newline>''
            @ ''\<newline>''
            @ ''global_settings { ambient_light rgb<0.1, 0.1, 0.1> }\<newline>''
            @ ''\<newline>''
            @ ''camera {\<newline>''
            @ ''    location <8, 6, -10>\<newline>''
            @ ''    look_at <0, 0, 0>\<newline>''
            @ ''}\<newline>''
            @ ''\<newline>'')
   \<and> wf_scene scenario
   \<and> generate_scene example_rt scenario =
       Inr (''#include "colors.inc"\<newline>''
            @ ''#include "textures.inc"\<newline>''
            @ ''#include "metals.inc"\<newline>''
            @ ''#include "glass.inc"\<newline>''
            @ ''\<newline>''
            @ ''global_settings { ambient_light rgb<0.1, 0.1, 0.1> }\<newline>''
            @ ''\<newline>''
            @ ''camera {\<newline>''
            @ ''    location <8, 6, -10>\<newline>''
            @ ''    look_at <0, 0, 0>\<newline>''
            @ ''}\<newline>''
            @ ''\<newline>''
            @ ''light_source {\<newline>''
            @ ''    <10, 10, -10>\<newline>''
            @ ''    color rgb <1, 1, 1>\<newline>''
            @ ''    intensity 1.0\<newline>''
            @ ''}\<newline>''
            @ ''\<newline>''
            @ ''object {\<newline>''
            @ ''    sphere\<newline>''
            @ ''    translate <-2, 0, 0>\<newline>''
            @ ''    rotate <0, 0, 0>\<newline>''
            @ ''    scale <1, 1, 1>\<newline>''
            @ ''    pigment { color rgb <0.8, 0.2, 0.2> }\<newline>''
            @ ''}\<newline>''
            @ ''\<newline>'')\<close>
proof -
  have wb: "wf_scene bare_scene"
    by (simp add: wf_scene_def wf_camera_def member_of_def bare_scene_def scenario_camera_def)
  have ws: "wf_scene scenario"
    by (simp add: wf_scene_def wf_camera_def wf_light_def wf_object_def member_of_def
        scenario_def scenario_camera_def key_light_def red_sphere_def)
  have e: "items (lights bare_scene) = []" "objects bare_scene = []"
    by (simp_all add: bare_scene_def)
  have "generate_scene example_rt bare_scene =
      Inr (preamble @ ambient_line @ camera_block example_rt (camera bare_scene))"
    using generate_scene_layout [OF wb, of example_rt] e by simp
  moreover have "generate_scene example_rt scenario =
      Inr (preamble @ ambient_line @ camera_block example_rt (camera scenario)
           @ concat (map (light_block example_rt) (items (lights scenario)))
           @ concat (map (\<lambda>obj. object_block example_rt obj @ ''\<newline>'') (objects scenario)))"
    using generate_scene_layout [OF ws, of example_rt] by simp
  ultimately show ?thesis
    using wb ws e
    by (simp add: preamble_def ambient_line_def camera_block_def light_block_def
        object_block_def shape_lines_def transform_lines_def pigment_line_def closing_line_def
        vec_text_def member_of_def bare_scene_def scenario_def scenario_camera_def
        key_light_def red_sphere_def example_rt_def int_str_def digits.simps)
qed

text \<open>
  C7. \<^verbatim>\<open>to_pov\<close> does not look at the kind: for every well-formed primitive and every
  string put in its place, one of the five shape names or not, the fragment is returned
  and is the opening line, the string itself on the line of the shape keyword, and a rest
  that does not depend on the string.
\<close>

theorem to_pov_kind_verbatim:
  assumes "wf_object obj"
  shows "\<exists>rest. \<forall>kind.
           to_pov rt (obj\<lparr>obj_type := PyStr kind\<rparr>) =
             Inr (''object {\<newline>'' @ ''    '' @ kind @ ''\<newline>'' @ rest)"
proof -
  let ?rest = "transform_lines rt obj
      @ (if py_truthy rt (texture obj) then texture_line (py_str rt (texture obj))
         else pigment_line rt (color obj))
      @ closing_line"
  have "to_pov rt (obj\<lparr>obj_type := PyStr kind\<rparr>) =
      Inr (''object {\<newline>'' @ ''    '' @ kind @ ''\<newline>'' @ ?rest)" for kind
  proof -
    from assms have "wf_object (obj\<lparr>obj_type := PyStr kind\<rparr>)"
      by (simp add: wf_object_def)
    then have "to_pov rt (obj\<lparr>obj_type := PyStr kind\<rparr>) =
        Inr (object_block rt (obj\<lparr>obj_type := PyStr kind\<rparr>))"
      by (rule to_pov_wf)
    then show ?thesis
      by (simp add: object_block_def shape_lines_def transform_lines_def)
  qed
  then show ?thesis by blast
qed

theorem to_pov_kind_verbatim_witness:
  "wf_object red_sphere
   \<and> (\<exists>rest. to_pov example_rt (red_sphere\<lparr>obj_type := PyStr ''teapot''\<rparr>) =
               Inr (''object {\<newline>'' @ ''    '' @ ''teapot'' @ ''\<newline>'' @ rest)
           \<and> to_pov example_rt (red_sphere\<lparr>obj_type := PyStr ''torus''\<rparr>) =
               Inr (''object {\<newline>'' @ ''    '' @ ''torus'' @ ''\<newline>'' @ rest))"
proof -
  have wf: "wf_object red_sphere"
    by (simp add: wf_object_def red_sphere_def)
  from to_pov_kind_verbatim [OF wf, of example_rt] obtain rest where
    "\<forall>kind. to_pov example_rt (red_sphere\<lparr>obj_type := PyStr kind\<rparr>) =
       Inr (''object {\<newline>'' @ ''    '' @ kind @ ''\<newline>'' @ rest)" ..
  then have "to_pov example_rt (red_sphere\<lparr>obj_type := PyStr ''teapot''\<rparr>) =
        Inr (''object {\<newline>'' @ ''    '' @ ''teapot'' @ ''\<newline>'' @ rest)
      \<and> to_pov example_rt (red_sphere\<lparr>obj_type := PyStr ''torus''\<rparr>) =
        Inr (''object {\<newline>'' @ ''    '' @ ''torus'' @ ''\<newline>'' @ rest)"
    by blast
  with wf show ?thesis by blast
qed

text \<open>
  C8. \<^verbatim>\<open>to_pov\<close> tests the truth value of the texture, not whether it is \<^verbatim>\<open>None\<close>: a
  primitive whose texture is falsy yields the fragment it would yield with the texture
  \<^verbatim>\<open>None\<close>; the empty string is falsy, and when the four vectors of the primitive are
  well-formed the fragment of a primitive with the texture \<^verbatim>\<open>""\<close> is the opening, the
  transform lines, the pigment line and the closing, without a texture reference.
\<close>

theorem to_pov_falsy_texture:
  "(\<not> py_truthy rt t \<longrightarrow>
      to_pov rt (obj\<lparr>texture := t\<rparr>) = to_pov rt (obj\<lparr>texture := PyNone\<rparr>))
   \<and> \<not> py_truthy rt (PyStr '''')
   \<and> (is_vector3 (position obj) \<and> is_vector3 (rotation obj) \<and> is_vector3 (scale obj)
        \<and> is_vector3 (color obj) \<longrightarrow>
      to_pov rt (obj\<lparr>texture := PyStr ''''\<rparr>) =
        Inr (shape_lines (py_str rt (obj_type obj)) @ transform_lines rt obj
             @ pigment_line rt (color obj) @ closing_line))"
proof (intro conjI impI)
  assume "\<not> py_truthy rt t"
  then show "to_pov rt (obj\<lparr>texture := t\<rparr>) = to_pov rt (obj\<lparr>texture := PyNone\<rparr>)"
    by (simp add: to_pov_def)
next
  show "\<not> py_truthy rt (PyStr '''')" by simp
next
  assume "is_vector3 (position obj) \<and> is_vector3 (rotation obj) \<and> is_vector3 (scale obj)
      \<and> is_vector3 (color obj)"
  then have "to_pov rt (obj\<lparr>texture := PyStr ''''\<rparr>) =
      Inr (object_block rt (obj\<lparr>texture := PyStr ''''\<rparr>))"
    by (intro to_pov_block) simp_all
  then show "to_pov rt (obj\<lparr>texture := PyStr ''''\<rparr>) =
      Inr (shape_lines (py_str rt (obj_type obj)) @ transform_lines rt obj
           @ pigment_line rt (color obj) @ closing_line)"
    by (simp add: object_block_def transform_lines_def)
qed

theorem to_pov_falsy_texture_witness:
  "\<not> py_truthy example_rt (PyInt 0)
   \<and> to_pov example_rt (red_sphere\<lparr>texture := PyInt 0\<rparr>) =
       to_pov example_rt (red_sphere\<lparr>texture := PyNone\<rparr>)
   \<and> is_vector3 (position red_sphere) \<and> is_vector3 (rotation red_sphere)
   \<and> is_vector3 (scale red_sphere) \<and> is_vector3 (color red_sphere)
   \<and> to_pov example_rt (red_sphere\<lparr>texture := PyStr ''''\<rparr>) =
       Inr (shape_lines ''sphere'' @ transform_lines example_rt red_sphere
            @ pigment_line example_rt (color red_sphere) @ closing_line)"
proof -
  have f: "\<not> py_truthy example_rt (PyInt 0)" by simp
  have v: "is_vector3 (position red_sphere) \<and> is_vector3 (rotation red_sphere)
      \<and> is_vector3 (scale red_sphere) \<and> is_vector3 (color red_sphere)"
    by (simp add: red_sphere_def)
  have k: "py_str example_rt (obj_type red_sphere) = ''sphere''"
    by (simp add: red_sphere_def)
  from to_pov_falsy_texture [of example_rt "PyInt 0" red_sphere] f v k
  show ?thesis by simp
qed

text \<open>
  C9. \<^verbatim>\<open>add_object\<close> puts the object at the end of the objects and leaves the camera, the
  lights and the objects that were there as they are. On a scene whose lights are a list,
  \<^verbatim>\<open>add_light\<close> puts a record with the given position, color and intensity at the end of
  the lights and leaves the camera, the objects and the lights that were there as they
  are.
\<close>

theorem add_object_add_light_frame:
  "objects (add_object s obj) = objects s @ [obj]
   \<and> camera (add_object s obj) = camera s
   \<and> lights (add_object s obj) = lights s
   \<and> (lights s = PyList ls \<longrightarrow>
        (\<exists>s'. add_light s pos col intens = Inr s'
           \<and> lights s' = PyList (ls @ [PyDict [(''position'', pos), (''color'', col),
                                               (''intensity'', intens)]])
           \<and> camera s' = camera s
           \<and> objects s' = objects s))"
  by (simp add: add_object_def add_light_def)

theorem add_object_add_light_frame_witness:
  "objects (add_object scenario chrome_sphere) = [red_sphere, chrome_sphere]
   \<and> camera (add_object scenario chrome_sphere) = scenario_camera
   \<and> lights (add_object scenario chrome_sphere) = PyList [key_light]
   \<and> lights scenario = PyList [key_light]
   \<and> (\<exists>s'. add_light scenario (PyTuple [PyInt 5, PyInt 5, PyInt (- 5)])
                (PyTuple [PyInt 1, PyInt 1, PyInt 1]) (PyFloat (Dec 10 1)) = Inr s'
         \<and> lights s' = PyList [key_light,
              PyDict [(''position'', PyTuple [PyInt 5, PyInt 5, PyInt (- 5)]),
                      (''color'', PyTuple [PyInt 1, PyInt 1, PyInt 1]),
                      (''intensity'', PyFloat (Dec 10 1))]]
         \<and> camera s' = scenario_camera
         \<and> objects s' = [red_sphere])"
proof -
  have l: "lights scenario = PyList [key_light]"
    by (simp add: scenario_def)
  from add_object_add_light_frame [of scenario chrome_sphere "[key_light]"
      "PyTuple [PyInt 5, PyInt 5, PyInt (- 5)]" "PyTuple [PyInt 1, PyInt 1, PyInt 1]"
      "PyFloat (Dec 10 1)"] l
  show ?thesis by (simp add: scenario_def)
qed

text \<open>
  C10. \<^verbatim>\<open>PovrayObject.from_dict\<close> raises \<^verbatim>\<open>TypeError\<close> for a record that has a key
  which is none of \<^verbatim>\<open>obj_type\<close>, \<^verbatim>\<open>position\<close>, \<^verbatim>\<open>rotation\<close>, \<^verbatim>\<open>scale\<close>, \<^verbatim>\<open>color\<close>,
  \<^verbatim>\<open>texture\<close>, and for a record without \<^verbatim>\<open>obj_type\<close>. A record with \<^verbatim>\<open>obj_type\<close> and
  with keys among the six only is decoded; each of position, rotation, scale, color and
  texture that it lacks is (0,0,0), (0,0,0), (1,1,1), (1,1,1) and \<^verbatim>\<open>None\<close> in the object,
  and each that it has is taken as given.
\<close>

theorem from_dict_keywords:
  "(k \<in> set (map fst kvs) \<and> k \<notin> set init_params \<longrightarrow>
      PovrayObject_from_dict (PyDict kvs) = Inl TypeError)
   \<and> (map_of kvs ''obj_type'' = None \<longrightarrow>
      PovrayObject_from_dict (PyDict kvs) = Inl TypeError)
   \<and> (set (map fst kvs) \<subseteq> set init_params \<and> map_of kvs ''obj_type'' = Some t \<longrightarrow>
      PovrayObject_from_dict (PyDict kvs) = Inr \<lparr>
        obj_type = t,
        position = (case map_of kvs ''position'' of
                      None \<Rightarrow> PyTuple [PyInt 0, PyInt 0, PyInt 0] | Some v \<Rightarrow> v),
        rotation = (case map_of kvs ''rotation'' of
                      None \<Rightarrow> PyTuple [PyInt 0, PyInt 0, PyInt 0] | Some v \<Rightarrow> v),
        scale = (case map_of kvs ''scale'' of
                   None \<Rightarrow> PyTuple [PyInt 1, PyInt 1, PyInt 1] | Some v \<Rightarrow> v),
        color = (case map_of kvs ''color'' of
                   None \<Rightarrow> PyTuple [PyInt 1, PyInt 1, PyInt 1] | Some v \<Rightarrow> v),
        texture = (case map_of kvs ''texture'' of None \<Rightarrow> PyNone | Some v \<Rightarrow> v) \<rparr>)"
proof (intro conjI impI)
  assume "k \<in> set (map fst kvs) \<and> k \<notin> set init_params"
  then have "\<exists>k \<in> set (map fst kvs). k \<notin> set init_params" by blast
  then show "PovrayObject_from_dict (PyDict kvs) = Inl TypeError"
    by (simp add: PovrayObject_init_def)
next
  assume "map_of kvs ''obj_type'' = None"
  then show "PovrayObject_from_dict (PyDict kvs) = Inl TypeError"
    by (simp add: PovrayObject_init_def)
next
  assume a: "set (map fst kvs) \<subseteq> set init_params \<and> map_of kvs ''obj_type'' = Some t"
  then have "\<not> (\<exists>k \<in> set (map fst kvs). k \<notin> set init_params)" by blast
  with a show "PovrayObject_from_dict (PyDict kvs) = Inr \<lparr>
        obj_type = t,
        position = (case map_of kvs ''position'' of
                      None \<Rightarrow> PyTuple [PyInt 0, PyInt 0, PyInt 0] | Some v \<Rightarrow> v),
        rotation = (case map_of kvs ''rotation'' of
                      None \<Rightarrow> PyTuple [PyInt 0, PyInt 0, PyInt 0] | Some v \<Rightarrow> v),
        scale = (case map_of kvs ''scale'' of
                   None \<Rightarrow> PyTuple [PyInt 1, PyInt 1, PyInt 1] | Some v \<Rightarrow> v),
        color = (case map_of kvs ''color'' of
                   None \<Rightarrow> PyTuple [PyInt 1, PyInt 1, PyInt 1] | Some v \<Rightarrow> v),
        texture = (case map_of kvs ''texture'' of None \<Rightarrow> PyNone | Some v \<Rightarrow> v) \<rparr>"
    by (simp add: PovrayObject_init_def arg_or_def)
qed

theorem from_dict_keywords_witness:
  "''radius'' \<in> set (map fst [(''obj_type'', PyStr ''sphere''), (''radius'', PyInt 2 :: dec pyval)])
   \<and> ''radius'' \<notin> set init_params
   \<and> PovrayObject_from_dict (PyDict [(''obj_type'', PyStr ''sphere''), (''radius'', PyInt 2)]) =
       (Inl TypeError :: py_error + dec PovrayObject)
   \<and> map_of [(''position'', PyTuple [PyInt 1, PyInt 2, PyInt 3 :: dec pyval])] ''obj_type'' = None
   \<and> PovrayObject_from_dict (PyDict [(''position'', PyTuple [PyInt 1, PyInt 2, PyInt 3])]) =
       (Inl TypeError :: py_error + dec PovrayObject)
   \<and> set (map fst [(''obj_type'', PyStr ''cone'' :: dec pyval)]) \<subseteq> set init_params
   \<and> PovrayObject_from_dict (PyDict [(''obj_type'', PyStr ''cone'')]) =
       (Inr \<lparr> obj_type = PyStr ''cone'',
              position = PyTuple [PyInt 0, PyInt 0, PyInt 0],
              rotation = PyTuple [PyInt 0, PyInt 0, PyInt 0],
              scale = PyTuple [PyInt 1, PyInt 1, PyInt 1],
              color = PyTuple [PyInt 1, PyInt 1, PyInt 1],
              texture = PyNone \<rparr> :: py_error + dec PovrayObject)"
proof -
  have p: "''radius'' \<notin> set init_params"
    "set (map fst [(''obj_type'', PyStr ''cone'' :: dec pyval)]) \<subseteq> set init_params"
    by (simp_all add: init_params_def)
  from
    from_dict_keywords [of "''radius''" "[(''obj_type'', PyStr ''sphere''), (''radius'', PyInt 2 :: dec pyval)]"]
    from_dict_keywords [of _ "[(''position'', PyTuple [PyInt 1, PyInt 2, PyInt 3 :: dec pyval])]"]
    from_dict_keywords [of _ "[(''obj_type'', PyStr ''cone'' :: dec pyval)]" "PyStr ''cone''"]
    p
  show ?thesis by simp
qed

end
